theory Spec2Isabelle
  imports Complex_Main "HOL-Library.Sublist"
begin

section \<open>Values of the script\<close>

text \<open>
  A Python \<open>str\<close> is a sequence of Unicode code points; \<open>ord\<close> of a character is the
  code point itself. String literals of the source are written \<open>lit ''...''\<close>.
  A Python \<open>float\<close> is only passed on to the host application, never computed with,
  and is modelled as a real number.
\<close>

type_synonym codepoint = nat
type_synonym pystr = "codepoint list"

abbreviation lit :: "string \<Rightarrow> pystr" where
  "lit s \<equiv> map of_char s"

text \<open>
  The exceptions a call of the host or of a library raises: classes derived from
  \<open>Exception\<close>, which \<open>except Exception\<close> catches, with the text \<open>str(e)\<close> gives.
\<close>

datatype exn =
    NameError pystr
  | AttributeError pystr
  | TypeError pystr
  | FileNotFoundError pystr
  | RuntimeError pystr
  | UnicodeEncodeError pystr

definition quoted :: "pystr \<Rightarrow> pystr" where
  "quoted s = [39] @ s @ [39]"

fun str_exn :: "exn \<Rightarrow> pystr" where
  "str_exn (NameError n) = lit ''name '' @ quoted n @ lit '' is not defined''"
| "str_exn (AttributeError m) = m"
| "str_exn (TypeError m) = m"
| "str_exn (FileNotFoundError m) = m"
| "str_exn (RuntimeError m) = m"
| "str_exn (UnicodeEncodeError m) = m"

type_synonym obj = nat
type_synonym font = nat
type_synonym vec3 = "real \<times> real \<times> real"

section \<open>The host application and the libraries\<close>

text \<open>
  Every call the script makes into the host application (\<open>bpy\<close>), the file system or
  the console, with its arguments. A run of the script is observed as the list of the
  calls it made, in order.
\<close>

datatype call =
    SelectAll pystr
  | Delete
  | TextAdd vec3
  | SetBody obj pystr
  | FontsLoad pystr
  | SetFont obj font
  | SetExtrude obj real
  | SetBevelDepth obj real
  | SetBevelResolution obj int
  | SetActive obj
  | Convert pystr
  | ShadeSmooth
  | ModifierAdd pystr
  | OriginSet pystr
  | SetLocation obj vec3
  | SelectSet obj bool
  | ObjExport pystr bool bool
  | SaveAsMainfile pystr
  | Makedirs pystr
  | Print pystr

text \<open>
  The host decides what the script cannot: whether a call raises (given the calls made
  so far), which object is active, which handle a loaded font gets, what the file
  system and the clock answer, what a font file contains, what \<open>str.lower\<close> makes of
  a string, and where an object is located after the calls made so far.
  \<open>getBestCmap\<close> returns a dictionary from code points to glyph names, or \<open>None\<close>.
\<close>

type_synonym cmap = "codepoint \<rightharpoonup> pystr"

record host =
  outcome :: "call list \<Rightarrow> call \<Rightarrow> exn option"
  active_object :: "call list \<Rightarrow> obj"
  font_handle :: "call list \<Rightarrow> pystr \<Rightarrow> font"
  script_dir :: pystr
  path_sep :: codepoint
  path_altsep :: "codepoint option"
  path_join :: "pystr \<Rightarrow> pystr \<Rightarrow> pystr"
  path_dirname :: "pystr \<Rightarrow> pystr"
  path_exists :: "pystr \<Rightarrow> bool"
  now_strftime :: "call list \<Rightarrow> pystr"
  TTFont :: "pystr \<Rightarrow> exn + cmap option"
  format_exc :: "exn \<Rightarrow> pystr"
  str_lower :: "pystr \<Rightarrow> pystr"
  location :: "call list \<Rightarrow> obj \<Rightarrow> vec3"

text \<open>
  The Unicode data the script reads: \<open>str.isspace\<close> of one character,
  \<open>unicodedata.name\<close> (\<open>None\<close> where the character has no name),
  \<open>unicodedata.category\<close>, and the attribute \<open>script\<close> of the module
  \<open>unicodedata\<close>, which is \<open>None\<close> when the module has no such attribute.
\<close>

record unicodedata =
  isspace :: "codepoint \<Rightarrow> bool"
  ud_name :: "codepoint \<Rightarrow> pystr option"
  ud_category :: "codepoint \<Rightarrow> pystr"
  ud_script :: "(codepoint \<Rightarrow> pystr) option"

section \<open>Programs: a call history threaded through, exceptions as values\<close>

type_synonym 'a prog = "call list \<Rightarrow> (exn + 'a) \<times> call list"

definition ret :: "'a \<Rightarrow> 'a prog" where
  "ret x = (\<lambda>tr. (Inr x, tr))"

definition raise :: "exn \<Rightarrow> 'a prog" where
  "raise e = (\<lambda>tr. (Inl e, tr))"

definition bind :: "'a prog \<Rightarrow> ('a \<Rightarrow> 'b prog) \<Rightarrow> 'b prog" where
  "bind m f = (\<lambda>tr. case m tr of (Inl e, tr') \<Rightarrow> (Inl e, tr') | (Inr x, tr') \<Rightarrow> f x tr')"

definition try_except :: "'a prog \<Rightarrow> (exn \<Rightarrow> 'a prog) \<Rightarrow> 'a prog" where
  "try_except m handler = (\<lambda>tr. case m tr of (Inl e, tr') \<Rightarrow> handler e tr' | (Inr x, tr') \<Rightarrow> (Inr x, tr'))"

definition invoke :: "host \<Rightarrow> call \<Rightarrow> unit prog" where
  "invoke h c = (\<lambda>tr. (case outcome h tr c of None \<Rightarrow> Inr () | Some e \<Rightarrow> Inl e, tr @ [c]))"

text \<open>
  \<open>print\<close> outside a \<open>try\<close>: it is taken to complete (were it to raise, the exception
  would leave the function; such runs are not modelled). The one \<open>print\<close> inside the
  body of a \<open>try\<close>, in \<open>export_mesh\<close>, is a call like any other: the host decides
  whether it raises, and the handler catches what it raises.
\<close>

definition print :: "pystr \<Rightarrow> unit prog" where
  "print s = (\<lambda>tr. (Inr (), tr @ [Print s]))"

definition print_in_try :: "host \<Rightarrow> pystr \<Rightarrow> unit prog" where
  "print_in_try h s = invoke h (Print s)"

definition lift :: "exn + 'a \<Rightarrow> 'a prog" where
  "lift r = (\<lambda>tr. (r, tr))"

text \<open>
  How the script as a whole can end other than by returning: the argument parser exits
  the interpreter with a status (\<open>SystemExit\<close>, which is not an \<open>Exception\<close> and which
  nothing in the script catches), or an exception reaches the top level.
\<close>

datatype exit = SystemExit int | Uncaught exn

definition uncaught :: "'a prog \<Rightarrow> call list \<Rightarrow> (exit + 'a) \<times> call list" where
  "uncaught m = (\<lambda>tr. case m tr of (Inl e, tr') \<Rightarrow> (Inl (Uncaught e), tr') | (Inr x, tr') \<Rightarrow> (Inr x, tr'))"

section \<open>check_font_support\<close>

record char_info =
  ci_char :: codepoint
  ci_name :: pystr
  ci_category :: pystr
  ci_script :: pystr

text \<open>
  The loop over the text. \<open>ord(char) not in cmap\<close> is evaluated first and raises
  \<open>TypeError\<close> when the cmap is \<open>None\<close>; the three Unicode lookups are made only for
  a character that is absent and not whitespace, and \<open>unicodedata.script\<close> raises
  \<open>AttributeError\<close> when the module has no such attribute.
\<close>

fun scan_text :: "unicodedata \<Rightarrow> cmap option \<Rightarrow> pystr \<Rightarrow> char_info list \<Rightarrow> exn + char_info list" where
  "scan_text U cm [] unsupported_chars = Inr unsupported_chars"
| "scan_text U cm (c # cs) unsupported_chars =
     (case cm of
        None \<Rightarrow> Inl (TypeError (lit ''argument of type '' @ quoted (lit ''NoneType'') @ lit '' is not iterable''))
      | Some m \<Rightarrow>
          if m c = None \<and> \<not> isspace U c then
            (case ud_script U of
               None \<Rightarrow>
                 Inl (AttributeError (lit ''module '' @ quoted (lit ''unicodedata'') @
                                      lit '' has no attribute '' @ quoted (lit ''script'')))
             | Some script \<Rightarrow>
                 scan_text U cm cs
                   (unsupported_chars @
                      [\<lparr>ci_char = c,
                        ci_name = (case ud_name U c of None \<Rightarrow> lit ''UNKNOWN'' | Some n \<Rightarrow> n),
                        ci_category = ud_category U c,
                        ci_script = script c\<rparr>]))
          else scan_text U cm cs unsupported_chars)"

text \<open>The body of the \<open>try\<close>: load the font, get its cmap, scan.\<close>

definition font_check :: "host \<Rightarrow> unicodedata \<Rightarrow> pystr \<Rightarrow> pystr \<Rightarrow> exn + bool \<times> char_info list" where
  "font_check h U font_path text =
     (case TTFont h font_path of
        Inl e \<Rightarrow> Inl e
      | Inr cm \<Rightarrow>
          (case scan_text U cm text [] of
             Inl e \<Rightarrow> Inl e
           | Inr unsupported_chars \<Rightarrow> Inr (length unsupported_chars = 0, unsupported_chars)))"

definition check_font_support :: "host \<Rightarrow> unicodedata \<Rightarrow> pystr \<Rightarrow> pystr \<Rightarrow> (bool \<times> char_info list) prog" where
  "check_font_support h U font_path text =
     try_except (lift (font_check h U font_path text))
       (\<lambda>e. bind (print (lit ''Warning: Font check failed - '' @ str_exn e))
              (\<lambda>_. ret (True, [])))"

section \<open>Paths and strings\<close>

text \<open>
  \<open>str.rfind\<close> of one character: the highest index where it occurs, or \<open>-1\<close>.
\<close>

fun rfind :: "codepoint \<Rightarrow> pystr \<Rightarrow> int" where
  "rfind c [] = -1"
| "rfind c (x # xs) =
     (let r = rfind c xs in if 0 \<le> r then r + 1 else if x = c then 0 else -1)"

text \<open>
  The loop of \<open>genericpath._splitext\<close> that skips the leading dots of the file
  name: it answers whether some character from \<open>filenameIndex\<close> up to the last dot is
  not a dot.
\<close>

function skip_leading_dots :: "pystr \<Rightarrow> nat \<Rightarrow> nat \<Rightarrow> bool" where
  "skip_leading_dots p filenameIndex dotIndex =
     (if filenameIndex < dotIndex then
        (if p ! filenameIndex \<noteq> 46 then True
         else skip_leading_dots p (filenameIndex + 1) dotIndex)
      else False)"
  by pat_completeness auto
termination
  by (relation "measure (\<lambda>(p, i, d). d - i)") auto

declare skip_leading_dots.simps [simp del]

text \<open>
  \<open>os.path.splitext\<close>, which is \<open>genericpath._splitext\<close> with the separators of the
  platform and the dot (code point 46) as extension separator.
\<close>

definition splitext :: "host \<Rightarrow> pystr \<Rightarrow> pystr \<times> pystr" where
  "splitext h p =
     (let sepIndex0 = rfind (path_sep h) p;
          sepIndex = (case path_altsep h of
                        None \<Rightarrow> sepIndex0
                      | Some altsep \<Rightarrow> max sepIndex0 (rfind altsep p));
          dotIndex = rfind 46 p
      in if dotIndex > sepIndex \<and> skip_leading_dots p (nat (sepIndex + 1)) (nat dotIndex)
         then (take (nat dotIndex) p, drop (nat dotIndex) p)
         else (p, []))"

text \<open>
  \<open>str.lower\<close>: the empty string stays empty; what becomes of any other string is
  what the Unicode data of the host says.
\<close>

definition lower :: "host \<Rightarrow> pystr \<Rightarrow> pystr" where
  "lower h s = (if s = [] then [] else str_lower h s)"

text \<open>The format \<open>:04X\<close>: upper-case hexadecimal, padded with zeros to four digits.\<close>

definition hex_digit :: "nat \<Rightarrow> codepoint" where
  "hex_digit d = (if d < 10 then 48 + d else 55 + d)"

function hex_upper :: "nat \<Rightarrow> pystr" where
  "hex_upper n = (if n < 16 then [hex_digit n] else hex_upper (n div 16) @ [hex_digit (n mod 16)])"
  by pat_completeness auto
termination
  by (relation "measure id") auto

declare hex_upper.simps [simp del]

definition format_04X :: "nat \<Rightarrow> pystr" where
  "format_04X n = (let s = hex_upper n in replicate (4 - length s) 48 @ s)"

section \<open>get_default_output_path\<close>

definition read_clock :: "host \<Rightarrow> pystr prog" where
  "read_clock h = (\<lambda>tr. (Inr (now_strftime h tr), tr))"

definition get_default_output_path :: "host \<Rightarrow> pystr \<Rightarrow> pystr \<Rightarrow> pystr prog" where
  "get_default_output_path h text file_ext =
     (let output_dir = path_join h (script_dir h) (lit ''output'') in
      bind (invoke h (Makedirs output_dir)) (\<lambda>_.
      bind (read_clock h) (\<lambda>timestamp.
      let filename = text @ lit ''_'' @ timestamp @ file_ext in
      ret (path_join h output_dir filename))))"

section \<open>export_mesh\<close>

text \<open>
  The names bound at module level: the imports and the function definitions. A name
  that is neither local nor bound here nor a builtin raises \<open>NameError\<close> when read.
\<close>

datatype binding = Module string | Class string | Function string

definition module_globals :: "(string \<times> binding) list" where
  "module_globals =
     [(''bpy'', Module ''bpy''), (''os'', Module ''os''), (''argparse'', Module ''argparse''),
      (''sys'', Module ''sys''), (''datetime'', Class ''datetime''), (''TTFont'', Class ''TTFont''),
      (''unicodedata'', Module ''unicodedata''),
      (''create_text_mesh'', Function ''create_text_mesh''),
      (''get_default_output_path'', Function ''get_default_output_path''),
      (''ensure_addons_enabled'', Function ''ensure_addons_enabled''),
      (''export_mesh'', Function ''export_mesh''),
      (''parse_args'', Function ''parse_args''),
      (''check_font_support'', Function ''check_font_support''),
      (''main'', Function ''main'')]"

fun format_binding :: "binding \<Rightarrow> pystr" where
  "format_binding (Module n) = lit ''<module '' @ lit n @ lit ''>''"
| "format_binding (Class n) = lit ''<class '' @ lit n @ lit ''>''"
| "format_binding (Function n) = lit ''<function '' @ lit n @ lit ''>''"

definition load_global :: "string \<Rightarrow> pystr prog" where
  "load_global n =
     (case map_of module_globals n of
        None \<Rightarrow> raise (NameError (lit n))
      | Some b \<Rightarrow> ret (format_binding b))"

definition export_mesh :: "host \<Rightarrow> obj \<Rightarrow> pystr option \<Rightarrow> bool prog" where
  "export_mesh h obj output_path0 =
     bind (case output_path0 of
             None \<Rightarrow> bind (load_global ''original_text'')
                       (\<lambda>original_text. get_default_output_path h original_text (lit ''.obj''))
           | Some p \<Rightarrow> ret p) (\<lambda>output_path1.
     let file_ext0 = lower h (snd (splitext h output_path1));
         file_ext = (if file_ext0 = [] then lit ''.obj'' else file_ext0);
         output_path = (if file_ext0 = [] then output_path1 @ file_ext else output_path1)
     in
       if file_ext \<notin> set [lit ''.obj'', lit ''.blend''] then
         bind (print (lit ''Error: Unsupported file format '' @ file_ext)) (\<lambda>_.
         bind (print (lit ''Supported formats: .obj, .blend'')) (\<lambda>_.
         ret False))
       else
         bind (invoke h (Makedirs (path_dirname h output_path))) (\<lambda>_.
         bind (invoke h (SelectAll (lit ''DESELECT''))) (\<lambda>_.
         bind (invoke h (SelectSet obj True)) (\<lambda>_.
         bind (invoke h (SetActive obj)) (\<lambda>_.
         try_except
           (bind (if file_ext = lit ''.obj'' then invoke h (ObjExport output_path True False)
                  else if file_ext = lit ''.blend'' then invoke h (SaveAsMainfile output_path)
                  else ret ()) (\<lambda>_.
            bind (print_in_try h (lit ''Exported to: '' @ output_path)) (\<lambda>_.
            ret True)))
           (\<lambda>e.
            bind (print (lit ''Export failed: '' @ str_exn e)) (\<lambda>_.
            bind (print (format_exc h e)) (\<lambda>_.
            ret False))))))))"

section \<open>create_text_mesh\<close>

definition read_active_object :: "host \<Rightarrow> obj prog" where
  "read_active_object h = (\<lambda>tr. (Inr (active_object h tr), tr))"

text \<open>\<open>bpy.data.fonts.load\<close>: a call of the host that returns the handle of the font.\<close>

definition fonts_load :: "host \<Rightarrow> pystr \<Rightarrow> font prog" where
  "fonts_load h font_path =
     (\<lambda>tr. (case outcome h tr (FontsLoad font_path) of
               None \<Rightarrow> Inr (font_handle h tr font_path)
             | Some e \<Rightarrow> Inl e,
             tr @ [FontsLoad font_path]))"

definition create_text_mesh :: "host \<Rightarrow> pystr \<Rightarrow> pystr \<Rightarrow> real \<Rightarrow> int \<Rightarrow> real \<Rightarrow> (obj \<times> pystr) prog" where
  "create_text_mesh h text font_path extrude_depth resolution bevel_depth =
     bind (invoke h (SelectAll (lit ''SELECT''))) (\<lambda>_.
     bind (invoke h Delete) (\<lambda>_.
     bind (invoke h (TextAdd (0, 0, 0))) (\<lambda>_.
     bind (read_active_object h) (\<lambda>text_obj.
     bind (invoke h (SetBody text_obj text)) (\<lambda>_.
     bind (fonts_load h font_path) (\<lambda>font.
     bind (invoke h (SetFont text_obj font)) (\<lambda>_.
     bind (invoke h (SetExtrude text_obj extrude_depth)) (\<lambda>_.
     bind (invoke h (SetBevelDepth text_obj bevel_depth)) (\<lambda>_.
     bind (invoke h (SetBevelResolution text_obj resolution)) (\<lambda>_.
     let original_text = text in
     bind (invoke h (SetActive text_obj)) (\<lambda>_.
     bind (invoke h (Convert (lit ''MESH''))) (\<lambda>_.
     bind (invoke h ShadeSmooth) (\<lambda>_.
     bind (invoke h (ModifierAdd (lit ''EDGE_SPLIT''))) (\<lambda>_.
     ret (text_obj, original_text)))))))))))))))"

section \<open>parse_args\<close>

record args =
  arg_text :: pystr
  arg_font :: pystr
  arg_depth :: real
  arg_resolution :: int
  arg_bevel :: real
  arg_output :: "pystr option"

text \<open>The defaults of the six \<open>add_argument\<close> calls.\<close>

definition parser_defaults :: args where
  "parser_defaults =
     \<lparr>arg_text = lit ''hello'',
      arg_font = [46, 92] @ lit ''fonts'' @ [92] @ lit ''hp.ttf'',
      arg_depth = 0.2,
      arg_resolution = 32,
      arg_bevel = 0.01,
      arg_output = None\<rparr>"

text \<open>
  \<open>parser.parse_args(argv)\<close>. All six arguments are optional and have defaults, so the
  empty list gives the defaults. What the library makes of a non-empty list (matching
  and abbreviation of options, conversion by \<open>float\<close> and \<open>int\<close>, exit with a status
  on an error) is taken as the parameter \<open>argparse\<close>.
\<close>

definition parser_parse_args :: "(pystr list \<Rightarrow> int + args) \<Rightarrow> pystr list \<Rightarrow> int + args" where
  "parser_parse_args argparse argv =
     (if argv = [] then Inr parser_defaults else argparse argv)"

text \<open>\<open>list.index\<close>, used only on a list that contains the element.\<close>

fun index :: "'a list \<Rightarrow> 'a \<Rightarrow> nat" where
  "index [] y = 0"
| "index (x # xs) y = (if x = y then 0 else index xs y + 1)"

definition parse_args :: "(pystr list \<Rightarrow> int + args) \<Rightarrow> pystr list \<Rightarrow> int + args" where
  "parse_args argparse sys_argv =
     (let argv = (if lit ''--'' \<in> set sys_argv
                  then drop (index sys_argv (lit ''--'') + 1) sys_argv
                  else [])
      in parser_parse_args argparse argv)"

section \<open>main\<close>

fun print_char_infos :: "char_info list \<Rightarrow> unit prog" where
  "print_char_infos [] = ret ()"
| "print_char_infos (char_info # rest) =
     bind (print (lit ''  - Character '' @ quoted [ci_char char_info] @ lit '' (U+'' @
                  format_04X (ci_char char_info) @ lit ''):'')) (\<lambda>_.
     bind (print (lit ''    Unicode name: '' @ ci_name char_info)) (\<lambda>_.
     bind (print (lit ''    Category: '' @ ci_category char_info)) (\<lambda>_.
     bind (print (lit ''    Script: '' @ ci_script char_info)) (\<lambda>_.
     print_char_infos rest))))"

text \<open>The truth value of \<open>args.output\<close>: \<open>None\<close> and the empty string are false.\<close>

fun truthy :: "pystr option \<Rightarrow> bool" where
  "truthy None = False"
| "truthy (Some s) = (s \<noteq> [])"

definition main :: "host \<Rightarrow> unicodedata \<Rightarrow> (pystr list \<Rightarrow> int + args) \<Rightarrow> pystr list \<Rightarrow>
    call list \<Rightarrow> (exit + unit) \<times> call list" where
  "main h U argparse sys_argv =
     (case parse_args argparse sys_argv of
        Inl status \<Rightarrow> (\<lambda>tr. (Inl (SystemExit status), tr))
      | Inr args \<Rightarrow>
     uncaught (
     let font_path = path_join h (script_dir h) (arg_font args) in
     if \<not> path_exists h font_path then
       bind (print (lit ''Error: Font file not found at '' @ font_path)) (\<lambda>_. ret ())
     else
       bind (check_font_support h U font_path (arg_text args)) (\<lambda>(is_supported, unsupported_chars).
       bind (if \<not> is_supported then
               bind (print ([10] @ lit ''Warning: Font may not fully support the required characters:'')) (\<lambda>_.
               bind (print_char_infos unsupported_chars) (\<lambda>_.
               print (lit ''Continuing execution, but some characters may not display correctly...'' @ [10])))
             else ret ()) (\<lambda>_.
       bind (create_text_mesh h (arg_text args) font_path (arg_depth args)
               (arg_resolution args) (arg_bevel args)) (\<lambda>(text_obj, original_text).
       bind (invoke h (OriginSet (lit ''ORIGIN_CENTER_OF_MASS''))) (\<lambda>_.
       bind (invoke h (SetLocation text_obj (0, 0, 0))) (\<lambda>_.
       bind (if truthy (arg_output args)
             then ret (path_join h (script_dir h) (case arg_output args of Some p \<Rightarrow> p | None \<Rightarrow> []))
             else get_default_output_path h original_text (lit ''.obj'')) (\<lambda>output_path.
       bind (export_mesh h text_obj (Some output_path)) (\<lambda>_.
       ret ())))))))))"

section \<open>Observing a run\<close>

text \<open>The export operators of the host, and the file they are asked to write.\<close>

fun is_export_call :: "call \<Rightarrow> bool" where
  "is_export_call (ObjExport filepath selected materials) = True"
| "is_export_call (SaveAsMainfile filepath) = True"
| "is_export_call c = False"

fun export_filepath :: "call \<Rightarrow> pystr" where
  "export_filepath (ObjExport filepath selected materials) = filepath"
| "export_filepath (SaveAsMainfile filepath) = filepath"
| "export_filepath c = []"

text \<open>The calls of a run before its first export operator, and from it on.\<close>

definition before_export :: "call list \<Rightarrow> call list" where
  "before_export tr = takeWhile (\<lambda>c. \<not> is_export_call c) tr"

definition from_export :: "call list \<Rightarrow> call list" where
  "from_export tr = dropWhile (\<lambda>c. \<not> is_export_call c) tr"

text \<open>The stages of the pipeline, and the stage a call belongs to, if any.\<close>

datatype stage =
    CreateText | SetTextFont | SetExtrudeDepth | SetBevel | SetResolution | ConvertToMesh | Export

fun stage_of :: "call \<Rightarrow> stage option" where
  "stage_of (TextAdd loc) = Some CreateText"
| "stage_of (SetFont text_obj f) = Some SetTextFont"
| "stage_of (SetExtrude text_obj d) = Some SetExtrudeDepth"
| "stage_of (SetBevelDepth text_obj d) = Some SetBevel"
| "stage_of (SetBevelResolution text_obj r) = Some SetResolution"
| "stage_of (Convert target) = Some ConvertToMesh"
| "stage_of (ObjExport filepath selected materials) = Some Export"
| "stage_of (SaveAsMainfile filepath) = Some Export"
| "stage_of c = None"

definition stages :: "call list \<Rightarrow> stage list" where
  "stages tr = List.map_filter stage_of tr"

definition pipeline :: "stage list" where
  "pipeline = [CreateText, SetTextFont, SetExtrudeDepth, SetBevel, SetResolution, ConvertToMesh, Export]"

fun is_makedirs :: "call \<Rightarrow> bool" where
  "is_makedirs (Makedirs d) = True"
| "is_makedirs c = False"

fun is_print :: "call \<Rightarrow> bool" where
  "is_print (Print s) = True"
| "is_print c = False"


text \<open>Some call other than an export operator or a print raises, on some history.\<close>

definition setup_raises :: "host \<Rightarrow> bool" where
  "setup_raises h = (\<exists>t c e. outcome h t c = Some e \<and> \<not> is_export_call c \<and> \<not> is_print c)"

section \<open>A sample platform\<close>

text \<open>
  \<open>posixpath.join\<close> of two components and \<open>posixpath.dirname\<close>, for the sample host
  below (the separator \<open>/\<close> is code point 47).
\<close>

definition posix_join :: "pystr \<Rightarrow> pystr \<Rightarrow> pystr" where
  "posix_join a b =
     (if take 1 b = [47] then b
      else if a = [] \<or> last a = 47 then a @ b
      else a @ [47] @ b)"

definition posix_dirname :: "pystr \<Rightarrow> pystr" where
  "posix_dirname p =
     (let i = nat (rfind 47 p + 1);
          head = take i p
      in if head \<noteq> [] \<and> head \<noteq> replicate (length head) 47
         then rev (dropWhile (\<lambda>c. c = 47) (rev head))
         else head)"

text \<open>\<open>str.lower\<close> on ASCII strings, for the sample host.\<close>

definition lower_cp :: "codepoint \<Rightarrow> codepoint" where
  "lower_cp c = (if 65 \<le> c \<and> c \<le> 90 then c + 32 else c)"

definition ascii_lower :: "pystr \<Rightarrow> pystr" where
  "ascii_lower s = map lower_cp s"

text \<open>
  Where the sample host puts an object: at the location last assigned to it, except
  that setting the origin moves every object to the new origin, here \<open>(1, 0, 0)\<close>.
\<close>

definition move :: "obj \<Rightarrow> vec3 \<Rightarrow> call \<Rightarrow> vec3" where
  "move ob loc c =
     (case c of
        SetLocation ob' v \<Rightarrow> if ob' = ob then v else loc
      | OriginSet ty \<Rightarrow> (1, 0, 0)
      | _ \<Rightarrow> loc)"

definition sample_location :: "call list \<Rightarrow> obj \<Rightarrow> vec3" where
  "sample_location tr ob = foldl (move ob) (0, 0, 0) tr"

text \<open>
  A host on which every call completes. Its one font file maps the letters \<open>h\<close> and
  \<open>i\<close>.
\<close>

definition sample_cmap :: cmap where
  "sample_cmap = map_of [(104, lit ''h''), (105, lit ''i'')]"

definition sample_host :: host where
  "sample_host =
     \<lparr>outcome = (\<lambda>tr c. None),
      active_object = (\<lambda>tr. 1),
      font_handle = (\<lambda>tr font_path. 1),
      script_dir = lit ''/home/user/gen'',
      path_sep = 47,
      path_altsep = None,
      path_join = posix_join,
      path_dirname = posix_dirname,
      path_exists = (\<lambda>p. True),
      now_strftime = (\<lambda>tr. lit ''20240101_120000''),
      TTFont = (\<lambda>font_path. Inr (Some sample_cmap)),
      format_exc = (\<lambda>e. lit ''Traceback (most recent call last): '' @ str_exn e),
      str_lower = ascii_lower,
      location = sample_location\<rparr>"

text \<open>The same host with an OBJ exporter that raises.\<close>

definition failing_export_host :: host where
  "failing_export_host =
     sample_host\<lparr>outcome := (\<lambda>tr c. if is_export_call c
                                     then Some (RuntimeError (lit ''Error: cannot write file''))
                                     else outcome sample_host tr c)\<rparr>"

text \<open>
  The same host where deselecting all objects raises, as an operator does whose context
  is not the one it needs.
\<close>

definition failing_select_host :: host where
  "failing_select_host =
     sample_host\<lparr>outcome := (\<lambda>tr c. if c = SelectAll (lit ''DESELECT'')
                                     then Some (RuntimeError (lit ''Operator poll() failed, context is incorrect''))
                                     else None)\<rparr>"

text \<open>
  The same host with a console that cannot encode what is printed after a completed
  export.
\<close>

definition failing_print_host :: host where
  "failing_print_host =
     sample_host\<lparr>outcome := (\<lambda>tr c. if is_print c
                                     then Some (UnicodeEncodeError (lit ''codec cannot encode characters''))
                                     else None)\<rparr>"

text \<open>The same host with a font file that cannot be read.\<close>

definition unreadable_font_host :: host where
  "unreadable_font_host =
     sample_host\<lparr>TTFont := (\<lambda>font_path. Inl (RuntimeError (lit ''Not a TrueType or OpenType font'')))\<rparr>"

text \<open>
  The characters for which \<open>str.isspace\<close> holds, and the module \<open>unicodedata\<close> of the
  standard library of CPython 3.11, whose functions are \<open>lookup\<close>, \<open>name\<close>, \<open>decimal\<close>,
  \<open>digit\<close>, \<open>numeric\<close>, \<open>category\<close>, \<open>bidirectional\<close>, \<open>combining\<close>,
  \<open>east_asian_width\<close>, \<open>mirrored\<close>, \<open>decomposition\<close>, \<open>normalize\<close> and
  \<open>is_normalized\<close>: it has no attribute \<open>script\<close>. Names and categories are given for
  the characters of the examples.
\<close>

definition py_whitespace :: "codepoint list" where
  "py_whitespace =
     [9, 10, 11, 12, 13, 28, 29, 30, 31, 32, 133, 160, 5760,
      8192, 8193, 8194, 8195, 8196, 8197, 8198, 8199, 8200, 8201, 8202,
      8232, 8233, 8239, 8287, 12288]"

definition stdlib_unicodedata :: unicodedata where
  "stdlib_unicodedata =
     \<lparr>isspace = (\<lambda>c. c \<in> set py_whitespace),
      ud_name = map_of [(33, lit ''EXCLAMATION MARK''),
                        (104, lit ''LATIN SMALL LETTER H''),
                        (105, lit ''LATIN SMALL LETTER I'')],
      ud_category = (\<lambda>c. if c = 33 then lit ''Po'' else if c = 32 then lit ''Zs'' else lit ''Ll''),
      ud_script = None\<rparr>"

text \<open>A Unicode database that also offers a script lookup.\<close>

definition scripted_unicodedata :: unicodedata where
  "scripted_unicodedata =
     stdlib_unicodedata\<lparr>ud_script := Some (\<lambda>c. if c = 33 then lit ''Common'' else lit ''Latin'')\<rparr>"

text \<open>An argument parser that rejects every non-empty argument list.\<close>

definition strict_argparse :: "pystr list \<Rightarrow> int + args" where
  "strict_argparse argv = Inl 2"

text \<open>
  An argument parser that accepts exactly \<open>--output PATH\<close>, the command line of a run
  of the script inside the host application, and the font path that run builds.
\<close>

definition sample_argparse :: "pystr list \<Rightarrow> int + args" where
  "sample_argparse argv =
     (case argv of
        [option, v] \<Rightarrow>
          if option = lit ''--output'' then Inr (parser_defaults\<lparr>arg_output := Some v\<rparr>)
          else Inl 2
      | _ \<Rightarrow> Inl 2)"

definition sample_argv :: "pystr list" where
  "sample_argv = [lit ''blender'', lit ''--background'', lit ''--python'', lit ''gen.py'',
                  lit ''--'', lit ''--output'', lit ''out/a.obj'']"

definition sample_font_path :: pystr where
  "sample_font_path = lit ''/home/user/gen/.'' @ [92] @ lit ''fonts'' @ [92] @ lit ''hp.ttf''"

text \<open>
  The calls of a run of \<open>main\<close> on the sample host with these arguments and the standard
  \<open>unicodedata\<close>: those made before \<open>export_mesh\<close> is entered, and those made before
  the export operator is invoked.
\<close>

definition sample_centred :: "call list" where
  "sample_centred =
     [Print (lit ''Warning: Font check failed - module '' @ quoted (lit ''unicodedata'') @
             lit '' has no attribute '' @ quoted (lit ''script'')),
      SelectAll (lit ''SELECT''), Delete, TextAdd (0, 0, 0), SetBody 1 (lit ''hello''),
      FontsLoad sample_font_path, SetFont 1 1, SetExtrude 1 0.2, SetBevelDepth 1 0.01,
      SetBevelResolution 1 32, SetActive 1, Convert (lit ''MESH''), ShadeSmooth,
      ModifierAdd (lit ''EDGE_SPLIT''), OriginSet (lit ''ORIGIN_CENTER_OF_MASS''),
      SetLocation 1 (0, 0, 0)]"

definition sample_prepared :: "call list" where
  "sample_prepared =
     sample_centred @
     [Makedirs (lit ''/home/user/gen/out''), SelectAll (lit ''DESELECT''), SelectSet 1 True,
      SetActive 1]"



section \<open>Evaluating the sample platform\<close>

lemmas prog_defs = ret_def raise_def bind_def try_except_def invoke_def print_def lift_def
  print_in_try_def

lemma sample_host_simps:
  "outcome sample_host tr c = None"
  "active_object sample_host tr = 1"
  "font_handle sample_host tr fp = 1"
  "script_dir sample_host = lit ''/home/user/gen''"
  "path_sep sample_host = 47"
  "path_altsep sample_host = None"
  "path_join sample_host = posix_join"
  "path_dirname sample_host = posix_dirname"
  "path_exists sample_host p = True"
  "now_strftime sample_host tr = lit ''20240101_120000''"
  "TTFont sample_host fp = Inr (Some sample_cmap)"
  "format_exc sample_host e = lit ''Traceback (most recent call last): '' @ str_exn e"
  "str_lower sample_host = ascii_lower"
  "location sample_host = sample_location"
  by (simp_all add: sample_host_def)

lemma failing_export_host_simps:
  "outcome failing_export_host tr c =
     (if is_export_call c then Some (RuntimeError (lit ''Error: cannot write file'')) else None)"
  "active_object failing_export_host tr = 1"
  "font_handle failing_export_host tr fp = 1"
  "script_dir failing_export_host = lit ''/home/user/gen''"
  "path_sep failing_export_host = 47"
  "path_altsep failing_export_host = None"
  "path_join failing_export_host = posix_join"
  "path_dirname failing_export_host = posix_dirname"
  "path_exists failing_export_host p = True"
  "now_strftime failing_export_host tr = lit ''20240101_120000''"
  "TTFont failing_export_host fp = Inr (Some sample_cmap)"
  "format_exc failing_export_host e = lit ''Traceback (most recent call last): '' @ str_exn e"
  "str_lower failing_export_host = ascii_lower"
  "location failing_export_host = sample_location"
  by (simp_all add: failing_export_host_def sample_host_def)

lemma failing_select_host_simps:
  "outcome failing_select_host tr c =
     (if c = SelectAll (lit ''DESELECT'')
      then Some (RuntimeError (lit ''Operator poll() failed, context is incorrect'')) else None)"
  "path_sep failing_select_host = 47"
  "path_altsep failing_select_host = None"
  "path_dirname failing_select_host = posix_dirname"
  "format_exc failing_select_host e = lit ''Traceback (most recent call last): '' @ str_exn e"
  "str_lower failing_select_host = ascii_lower"
  by (simp_all add: failing_select_host_def sample_host_def)

lemma failing_print_host_simps:
  "outcome failing_print_host tr c =
     (if is_print c then Some (UnicodeEncodeError (lit ''codec cannot encode characters'')) else None)"
  "path_sep failing_print_host = 47"
  "path_altsep failing_print_host = None"
  "path_dirname failing_print_host = posix_dirname"
  "format_exc failing_print_host e = lit ''Traceback (most recent call last): '' @ str_exn e"
  "str_lower failing_print_host = ascii_lower"
  by (simp_all add: failing_print_host_def sample_host_def)

lemmas path_defs = splitext_def skip_leading_dots.simps posix_dirname_def

lemma splitext_examples [simplified]:
  "path_sep h = 47 \<Longrightarrow> path_altsep h = None \<Longrightarrow>
     splitext h (lit ''/tmp/out/model'') = (lit ''/tmp/out/model'', [])"
  "path_sep h = 47 \<Longrightarrow> path_altsep h = None \<Longrightarrow>
     splitext h (lit ''/tmp/a.STL'') = (lit ''/tmp/a'', lit ''.STL'')"
  "path_sep h = 47 \<Longrightarrow> path_altsep h = None \<Longrightarrow>
     splitext h (lit ''/tmp/out/a.Blend'') = (lit ''/tmp/out/a'', lit ''.Blend'')"
  "path_sep h = 47 \<Longrightarrow> path_altsep h = None \<Longrightarrow>
     splitext h (lit ''/tmp/out/a.OBJ'') = (lit ''/tmp/out/a'', lit ''.OBJ'')"
  "path_sep h = 47 \<Longrightarrow> path_altsep h = None \<Longrightarrow>
     splitext h (lit ''/tmp/out/a.obj'') = (lit ''/tmp/out/a'', lit ''.obj'')"
  by (simp_all add: path_defs)

lemma dirname_examples [simplified]:
  "posix_dirname (lit ''/tmp/out/model.obj'') = lit ''/tmp/out''"
  "posix_dirname (lit ''/tmp/out/a.Blend'') = lit ''/tmp/out''"
  "posix_dirname (lit ''/tmp/out/a.OBJ'') = lit ''/tmp/out''"
  "posix_dirname (lit ''/tmp/out/a.obj'') = lit ''/tmp/out''"
  by (simp_all add: path_defs)

lemmas sample_simps = sample_host_simps failing_export_host_simps failing_select_host_simps
  failing_print_host_simps splitext_examples dirname_examples lower_def ascii_lower_def
  lower_cp_def quoted_def

section \<open>The font check\<close>

lemma scan_text_acc:
  "ud_script U = Some s \<Longrightarrow>
   scan_text U (Some m) text acc =
     Inr (acc @ map (\<lambda>c. \<lparr>ci_char = c,
                          ci_name = (case ud_name U c of None \<Rightarrow> lit ''UNKNOWN'' | Some n \<Rightarrow> n),
                          ci_category = ud_category U c,
                          ci_script = s c\<rparr>)
                    (filter (\<lambda>c. m c = None \<and> \<not> isspace U c) text))"
  by (induction "text" arbitrary: acc) auto

text \<open>
  Where the module \<open>unicodedata\<close> offers a script lookup, the check is the scan of the
  text against the character map: the flag says that every character that is not
  whitespace is mapped, and the list holds the others, in the order of the text.
\<close>

lemma check_font_support_scan:
  assumes "TTFont h font_path = Inr (Some m)" and "ud_script U = Some s"
  shows "check_font_support h U font_path text tr =
           (Inr ((\<forall>c \<in> set text. \<not> isspace U c \<longrightarrow> m c \<noteq> None),
                 map (\<lambda>c. \<lparr>ci_char = c,
                          ci_name = (case ud_name U c of None \<Rightarrow> lit ''UNKNOWN'' | Some n \<Rightarrow> n),
                          ci_category = ud_category U c,
                          ci_script = s c\<rparr>)
                    (filter (\<lambda>c. m c = None \<and> \<not> isspace U c) text)), tr)"
  using assms
  by (auto simp: check_font_support_def font_check_def prog_defs scan_text_acc filter_empty_conv)

lemma check_font_support_scripted_example:
  "check_font_support sample_host scripted_unicodedata (lit ''/home/user/gen/hp.ttf'') (lit ''hi !'') [] =
     (Inr (False, [\<lparr>ci_char = 33, ci_name = lit ''EXCLAMATION MARK'', ci_category = lit ''Po'',
                     ci_script = lit ''Common''\<rparr>]), [])"
  using check_font_support_scan [of sample_host "lit ''/home/user/gen/hp.ttf''" sample_cmap
      scripted_unicodedata "\<lambda>c. if c = 33 then lit ''Common'' else lit ''Latin''" "lit ''hi !''" "[]"]
  by (simp add: sample_host_simps scripted_unicodedata_def stdlib_unicodedata_def sample_cmap_def
        py_whitespace_def)

text \<open>
  C1. With the module \<open>unicodedata\<close> of the standard library, which has no attribute
  \<open>script\<close>, the check of the text \<open>hi!\<close> against a font that loads and maps only
  \<open>h\<close> and \<open>i\<close> does not report the exclamation mark: the lookup of its script raises,
  the handler prints the warning, and the result is \<open>(True, [])\<close>.
\<close>

theorem check_font_support_script_lookup_raises:
  "TTFont sample_host (lit ''/home/user/gen/hp.ttf'') = Inr (Some sample_cmap) \<and>
   sample_cmap 33 = None \<and> \<not> isspace stdlib_unicodedata 33 \<and>
   check_font_support sample_host stdlib_unicodedata (lit ''/home/user/gen/hp.ttf'') (lit ''hi!'') [] =
     (Inr (True, []),
      [Print (lit ''Warning: Font check failed - module '' @ quoted (lit ''unicodedata'') @
              lit '' has no attribute '' @ quoted (lit ''script''))])"
  by (simp add: check_font_support_def font_check_def prog_defs sample_host_simps sample_cmap_def
       stdlib_unicodedata_def py_whitespace_def quoted_def)

text \<open>
  C7. \<open>check_font_support\<close> always returns a pair, and its first component is \<open>True\<close>
  exactly when its second is the empty list. When loading or inspecting the font
  raises, the pair is \<open>(True, [])\<close> and the warning is printed; the exception does not
  propagate.
\<close>

theorem check_font_support_invariant:
  "(\<exists>b l tr'. check_font_support h U font_path text tr = (Inr (b, l), tr') \<and> (b \<longleftrightarrow> l = [])) \<and>
   (\<forall>e. font_check h U font_path text = Inl e \<longrightarrow>
         check_font_support h U font_path text tr =
           (Inr (True, []), tr @ [Print (lit ''Warning: Font check failed - '' @ str_exn e)]))"
  by (auto simp: check_font_support_def font_check_def prog_defs split: sum.splits)

theorem check_font_support_invariant_witness:
  "font_check unreadable_font_host stdlib_unicodedata (lit ''/home/user/gen/hp.ttf'') (lit ''hi'') =
     Inl (RuntimeError (lit ''Not a TrueType or OpenType font'')) \<and>
   check_font_support unreadable_font_host stdlib_unicodedata (lit ''/home/user/gen/hp.ttf'') (lit ''hi'') [] =
     (Inr (True, []), [Print (lit ''Warning: Font check failed - Not a TrueType or OpenType font'')])"
  using check_font_support_invariant [of unreadable_font_host stdlib_unicodedata
      "lit ''/home/user/gen/hp.ttf''" "lit ''hi''" "[]"]
  by (simp add: font_check_def unreadable_font_host_def sample_host_def)

section \<open>The export\<close>

text \<open>
  C8. Called without an output path, \<open>export_mesh\<close> reads the name \<open>original_text\<close>,
  which is bound neither in the function nor at module level: it raises \<open>NameError\<close>
  before any call is made, so nothing is exported and no default path is built.
\<close>

theorem export_mesh_default_path_name_error:
  "export_mesh h obj None tr = (Inl (NameError (lit ''original_text'')), tr)"
  by (simp add: export_mesh_def load_global_def module_globals_def prog_defs)

text \<open>
  C2, as amended. For every output path whose lower-cased extension is not empty and is
  neither \<open>.obj\<close> nor \<open>.blend\<close>, \<open>export_mesh\<close> prints the two lines of the
  unsupported-format error and returns \<open>False\<close>; these two prints are all it does, so no
  export operator is invoked and no directory is created.
\<close>

theorem export_mesh_rejects_unsupported_extension:
  assumes "file_ext = lower h (snd (splitext h p))"
    and "file_ext \<noteq> []" and "file_ext \<noteq> lit ''.obj''" and "file_ext \<noteq> lit ''.blend''"
  shows "export_mesh h obj (Some p) tr =
           (Inr False, tr @ [Print (lit ''Error: Unsupported file format '' @ file_ext),
                             Print (lit ''Supported formats: .obj, .blend'')])"
  using assms by (simp add: export_mesh_def prog_defs Let_def)

theorem export_mesh_rejects_unsupported_extension_witness:
  "lower sample_host (snd (splitext sample_host (lit ''/tmp/a.STL''))) = lit ''.stl'' \<and>
   export_mesh sample_host 1 (Some (lit ''/tmp/a.STL'')) [] =
     (Inr False, [Print (lit ''Error: Unsupported file format .stl''),
                  Print (lit ''Supported formats: .obj, .blend'')])"
  using export_mesh_rejects_unsupported_extension
          [of "lit ''.stl''" sample_host "lit ''/tmp/a.STL''" 1 "[]"]
  by (simp add: sample_simps)

text \<open>
  The claim C2 as stated fails for a path without extension: its extension is the
  empty string, which is neither \<open>.obj\<close> nor \<open>.blend\<close>, and the function takes
  \<open>.obj\<close> instead and goes on: here it creates the directory, invokes the OBJ exporter
  and returns \<open>True\<close>.
\<close>

theorem export_mesh_no_extension_counterexample:
  "lower sample_host (snd (splitext sample_host (lit ''/tmp/out/model''))) \<noteq> lit ''.obj'' \<and>
   lower sample_host (snd (splitext sample_host (lit ''/tmp/out/model''))) \<noteq> lit ''.blend'' \<and>
   export_mesh sample_host 1 (Some (lit ''/tmp/out/model'')) [] =
     (Inr True,
      [Makedirs (lit ''/tmp/out''), SelectAll (lit ''DESELECT''), SelectSet 1 True, SetActive 1,
       ObjExport (lit ''/tmp/out/model.obj'') True False,
       Print (lit ''Exported to: /tmp/out/model.obj'')])"
  apply (simp add: export_mesh_def prog_defs splitext_examples sample_host_simps lower_def)
  apply (simp add: Let_def sample_simps)
  done

lemma export_mesh_run_ext:
  assumes "outcome h tr (Makedirs (path_dirname h q)) = None"
    and "outcome h (tr @ [Makedirs (path_dirname h q)]) (SelectAll (lit ''DESELECT'')) = None"
    and "outcome h (tr @ [Makedirs (path_dirname h q), SelectAll (lit ''DESELECT'')]) (SelectSet ob True) = None"
    and "outcome h (tr @ [Makedirs (path_dirname h q), SelectAll (lit ''DESELECT''), SelectSet ob True])
           (SetActive ob) = None"
    and "prepared = tr @ [Makedirs (path_dirname h q), SelectAll (lit ''DESELECT''), SelectSet ob True,
                          SetActive ob]"
  shows
    "lower h (snd (splitext h p)) = lit ''.obj'' \<Longrightarrow> q = p \<Longrightarrow>
       export_mesh h ob (Some p) tr =
         (case outcome h prepared (ObjExport q True False) of
            Some e \<Rightarrow> (Inr False, prepared @ [ObjExport q True False,
                                              Print (lit ''Export failed: '' @ str_exn e),
                                              Print (format_exc h e)])
          | None \<Rightarrow>
              (case outcome h (prepared @ [ObjExport q True False]) (Print (lit ''Exported to: '' @ q)) of
                 None \<Rightarrow> (Inr True, prepared @ [ObjExport q True False, Print (lit ''Exported to: '' @ q)])
               | Some e \<Rightarrow> (Inr False, prepared @ [ObjExport q True False,
                                                   Print (lit ''Exported to: '' @ q),
                                                   Print (lit ''Export failed: '' @ str_exn e),
                                                   Print (format_exc h e)])))"
    "lower h (snd (splitext h p)) = [] \<Longrightarrow> q = p @ lit ''.obj'' \<Longrightarrow>
       export_mesh h ob (Some p) tr =
         (case outcome h prepared (ObjExport q True False) of
            Some e \<Rightarrow> (Inr False, prepared @ [ObjExport q True False,
                                              Print (lit ''Export failed: '' @ str_exn e),
                                              Print (format_exc h e)])
          | None \<Rightarrow>
              (case outcome h (prepared @ [ObjExport q True False]) (Print (lit ''Exported to: '' @ q)) of
                 None \<Rightarrow> (Inr True, prepared @ [ObjExport q True False, Print (lit ''Exported to: '' @ q)])
               | Some e \<Rightarrow> (Inr False, prepared @ [ObjExport q True False,
                                                   Print (lit ''Exported to: '' @ q),
                                                   Print (lit ''Export failed: '' @ str_exn e),
                                                   Print (format_exc h e)])))"
    "lower h (snd (splitext h p)) = lit ''.blend'' \<Longrightarrow> q = p \<Longrightarrow>
       export_mesh h ob (Some p) tr =
         (case outcome h prepared (SaveAsMainfile q) of
            Some e \<Rightarrow> (Inr False, prepared @ [SaveAsMainfile q,
                                              Print (lit ''Export failed: '' @ str_exn e),
                                              Print (format_exc h e)])
          | None \<Rightarrow>
              (case outcome h (prepared @ [SaveAsMainfile q]) (Print (lit ''Exported to: '' @ q)) of
                 None \<Rightarrow> (Inr True, prepared @ [SaveAsMainfile q, Print (lit ''Exported to: '' @ q)])
               | Some e \<Rightarrow> (Inr False, prepared @ [SaveAsMainfile q,
                                                   Print (lit ''Exported to: '' @ q),
                                                   Print (lit ''Export failed: '' @ str_exn e),
                                                   Print (format_exc h e)])))"
  using assms by (simp_all add: export_mesh_def prog_defs Let_def split: option.splits)




section \<open>The command line\<close>

text \<open>
  C9. When the argument vector does not contain the separator \<open>--\<close>, \<open>parse_args\<close>
  parses the empty list, whatever the other tokens are, and every option has its
  default: text \<open>hello\<close>, font \<open>.\fonts\hp.ttf\<close>, depth 0.2, resolution 32, bevel
  0.01, output \<open>None\<close>.
\<close>

theorem parse_args_without_separator:
  "lit ''--'' \<notin> set sys_argv \<Longrightarrow>
   parse_args argparse sys_argv =
     Inr \<lparr>arg_text = lit ''hello'',
          arg_font = [46, 92] @ lit ''fonts'' @ [92] @ lit ''hp.ttf'',
          arg_depth = 0.2, arg_resolution = 32, arg_bevel = 0.01, arg_output = None\<rparr>"
  by (simp add: parse_args_def parser_parse_args_def parser_defaults_def)

theorem parse_args_without_separator_witness:
  "lit ''--'' \<notin> set [lit ''blender'', lit ''--text'', lit ''abc''] \<and>
   parse_args strict_argparse [lit ''blender'', lit ''--text'', lit ''abc''] =
     Inr \<lparr>arg_text = lit ''hello'',
          arg_font = [46, 92] @ lit ''fonts'' @ [92] @ lit ''hp.ttf'',
          arg_depth = 0.2, arg_resolution = 32, arg_bevel = 0.01, arg_output = None\<rparr>"
  using parse_args_without_separator [of "[lit ''blender'', lit ''--text'', lit ''abc'']" strict_argparse]
  by simp


section \<open>The shape of a run\<close>

lemma stages_append: "stages (xs @ ys) = stages xs @ stages ys"
  by (simp add: stages_def map_filter_def)

lemma stages_simps [simp]:
  "stages [] = []"
  "stages (c # cs) = (case stage_of c of None \<Rightarrow> stages cs | Some s \<Rightarrow> s # stages cs)"
  by (simp_all add: stages_def map_filter_simps split: option.splits)

lemma no_export_stages: "(\<forall>c \<in> set cs. \<not> is_export_call c) \<longleftrightarrow> Export \<notin> set (stages cs)"
proof (induction cs)
  case Nil
  show ?case by simp
next
  case (Cons c cs)
  then show ?case by (cases c) auto
qed

lemma makedirs_no_export: "is_makedirs c \<Longrightarrow> \<not> is_export_call c"
  by (cases c) auto

lemma makedirs_stages: "\<forall>c \<in> set cs. is_makedirs c \<Longrightarrow> stages cs = []"
proof (induction cs)
  case Nil
  show ?case by simp
next
  case (Cons c cs)
  then show ?case by (cases c) auto
qed

lemma print_stages: "\<forall>c \<in> set cs. is_print c \<Longrightarrow> stages cs = []"
proof (induction cs)
  case Nil
  show ?case by simp
next
  case (Cons c cs)
  then show ?case by (cases c) auto
qed

lemma setup_raisesI:
  "outcome h t c = Some e \<Longrightarrow> \<not> is_export_call c \<Longrightarrow> \<not> is_print c \<Longrightarrow> setup_raises h"
  by (auto simp: setup_raises_def)

lemma completes:
  assumes "\<not> setup_raises h" and "\<not> is_export_call c" and "\<not> is_print c"
  shows "outcome h t c = None"
proof (rule ccontr)
  assume "outcome h t c \<noteq> None"
  then obtain e where "outcome h t c = Some e" by auto
  with assms(2,3) have "setup_raises h" unfolding setup_raises_def by blast
  with assms(1) show False ..
qed

lemma create_text_mesh_shape:
  assumes "create_text_mesh h text fp d res b tr = (r, tr')"
  shows "(\<exists>ob f. r = Inr (ob, text) \<and>
            tr' = tr @ [SelectAll (lit ''SELECT''), Delete, TextAdd (0, 0, 0), SetBody ob text,
                        FontsLoad fp, SetFont ob f, SetExtrude ob d, SetBevelDepth ob b,
                        SetBevelResolution ob res, SetActive ob, Convert (lit ''MESH''),
                        ShadeSmooth, ModifierAdd (lit ''EDGE_SPLIT'')])
       \<or> (\<exists>e added. r = Inl e \<and> tr' = tr @ added \<and> prefix (stages added) (butlast pipeline))"
  using assms
  unfolding create_text_mesh_def fonts_load_def read_active_object_def prog_defs Let_def
  by (auto simp: pipeline_def split: option.splits)

lemma create_text_mesh_completes:
  assumes "\<not> setup_raises h"
  shows "\<exists>x t. create_text_mesh h text fp d res b tr = (Inr x, t)"
  unfolding create_text_mesh_def fonts_load_def read_active_object_def prog_defs Let_def
  by (simp add: completes [OF assms])

lemma invoke_completes:
  assumes "\<not> setup_raises h" and "\<not> is_export_call c" and "\<not> is_print c"
  shows "invoke h c t = (Inr (), t @ [c])"
  by (simp add: invoke_def completes [OF assms])

lemma check_font_support_quiet:
  "\<exists>x ps. check_font_support h U fp text tr = (Inr x, tr @ ps) \<and> stages ps = []"
  by (auto simp: check_font_support_def prog_defs split: sum.splits)

lemma print_char_infos_quiet:
  "\<exists>ps. print_char_infos l tr = (Inr (), tr @ ps) \<and> stages ps = []"
proof (induction l arbitrary: tr)
  case Nil
  show ?case by (simp add: prog_defs)
next
  case (Cons a l)
  define t4 where "t4 = tr @ [Print (lit ''  - Character '' @ quoted [ci_char a] @ lit '' (U+'' @
                  format_04X (ci_char a) @ lit ''):''),
       Print (lit ''    Unicode name: '' @ ci_name a), Print (lit ''    Category: '' @ ci_category a),
       Print (lit ''    Script: '' @ ci_script a)]"
  from Cons [of t4] obtain ps where ps: "print_char_infos l t4 = (Inr (), t4 @ ps)" "stages ps = []"
    by blast
  have "print_char_infos (a # l) tr = print_char_infos l t4"
    by (simp add: prog_defs t4_def)
  with ps show ?case
    by (auto simp: t4_def stages_append)
qed

lemma export_mesh_run:
  assumes "fe0 = lower h (snd (splitext h p))"
    and "q = (if fe0 = [] then p @ lit ''.obj'' else p)"
    and "d = path_dirname h q"
    and "fe0 = [] \<or> fe0 = lit ''.obj'' \<or> fe0 = lit ''.blend''"
  shows
    "outcome h tr (Makedirs d) = Some e \<Longrightarrow>
       export_mesh h ob (Some p) tr = (Inl e, tr @ [Makedirs d])"
    "outcome h tr (Makedirs d) = None \<Longrightarrow>
     outcome h (tr @ [Makedirs d]) (SelectAll (lit ''DESELECT'')) = Some e \<Longrightarrow>
       export_mesh h ob (Some p) tr = (Inl e, tr @ [Makedirs d, SelectAll (lit ''DESELECT'')])"
    "outcome h tr (Makedirs d) = None \<Longrightarrow>
     outcome h (tr @ [Makedirs d]) (SelectAll (lit ''DESELECT'')) = None \<Longrightarrow>
     outcome h (tr @ [Makedirs d, SelectAll (lit ''DESELECT'')]) (SelectSet ob True) = Some e \<Longrightarrow>
       export_mesh h ob (Some p) tr =
         (Inl e, tr @ [Makedirs d, SelectAll (lit ''DESELECT''), SelectSet ob True])"
    "outcome h tr (Makedirs d) = None \<Longrightarrow>
     outcome h (tr @ [Makedirs d]) (SelectAll (lit ''DESELECT'')) = None \<Longrightarrow>
     outcome h (tr @ [Makedirs d, SelectAll (lit ''DESELECT'')]) (SelectSet ob True) = None \<Longrightarrow>
     outcome h (tr @ [Makedirs d, SelectAll (lit ''DESELECT''), SelectSet ob True]) (SetActive ob) = Some e \<Longrightarrow>
       export_mesh h ob (Some p) tr =
         (Inl e, tr @ [Makedirs d, SelectAll (lit ''DESELECT''), SelectSet ob True, SetActive ob])"
  using assms by (auto simp: export_mesh_def prog_defs Let_def)


lemma export_mesh_run_unsupported:
  assumes "fe0 = lower h (snd (splitext h p))"
    and "\<not> (fe0 = [] \<or> fe0 = lit ''.obj'' \<or> fe0 = lit ''.blend'')"
  shows "export_mesh h ob (Some p) tr =
           (Inr False, tr @ [Print (lit ''Error: Unsupported file format '' @ fe0),
                             Print (lit ''Supported formats: .obj, .blend'')])"
  using assms by (simp add: export_mesh_def prog_defs Let_def)

lemma export_mesh_shape:
  assumes run: "export_mesh h ob (Some p) tr = (r, tr')"
  shows "(\<exists>added. tr' = tr @ added \<and> stages added = [] \<and> (setup_raises h \<or> r = Inr False))
       \<or> (\<exists>d operator after b.
             is_export_call operator \<and> r = Inr b \<and>
             tr' = tr @ [Makedirs d, SelectAll (lit ''DESELECT''), SelectSet ob True, SetActive ob,
                         operator] @ after \<and>
             (\<forall>c \<in> set after. is_print c))"
    (is "?quiet \<or> ?exported")
proof -
  define fe0 where "fe0 = lower h (snd (splitext h p))"
  define q where "q = (if fe0 = [] then p @ lit ''.obj'' else p)"
  define d where "d = path_dirname h q"
  define prepared where
    "prepared = tr @ [Makedirs d, SelectAll (lit ''DESELECT''), SelectSet ob True, SetActive ob]"
  show ?thesis
  proof (cases "fe0 = [] \<or> fe0 = lit ''.obj'' \<or> fe0 = lit ''.blend''")
    case False
    from export_mesh_run_unsupported [OF fe0_def False, of ob tr] run
    have "tr' = tr @ [Print (lit ''Error: Unsupported file format '' @ fe0),
                      Print (lit ''Supported formats: .obj, .blend'')]" and "r = Inr False"
      by simp_all
    then show ?thesis by simp
  next
    case sup: True
    note steps = export_mesh_run [OF fe0_def q_def d_def sup, where tr=tr and ob=ob]
    show ?thesis
    proof (cases "outcome h tr (Makedirs d)")
      case (Some e)
      then have "setup_raises h" by (rule setup_raisesI) simp_all
      moreover from steps(1) [OF Some] run have "tr' = tr @ [Makedirs d]" by simp
      ultimately show ?thesis by simp
    next
      case o1: None
      show ?thesis
      proof (cases "outcome h (tr @ [Makedirs d]) (SelectAll (lit ''DESELECT''))")
        case (Some e)
        then have "setup_raises h" by (rule setup_raisesI) simp_all
        moreover from steps(2) [OF o1 Some] run
        have "tr' = tr @ [Makedirs d, SelectAll (lit ''DESELECT'')]" by simp
        ultimately show ?thesis by simp
      next
        case o2: None
        show ?thesis
        proof (cases "outcome h (tr @ [Makedirs d, SelectAll (lit ''DESELECT'')]) (SelectSet ob True)")
          case (Some e)
          then have "setup_raises h" by (rule setup_raisesI) simp_all
          moreover from steps(3) [OF o1 o2 Some] run
          have "tr' = tr @ [Makedirs d, SelectAll (lit ''DESELECT''), SelectSet ob True]" by simp
          ultimately show ?thesis by simp
        next
          case o3: None
          show ?thesis
          proof (cases "outcome h (tr @ [Makedirs d, SelectAll (lit ''DESELECT''), SelectSet ob True])
                          (SetActive ob)")
            case (Some e)
            then have "setup_raises h" by (rule setup_raisesI) simp_all
            moreover from steps(4) [OF o1 o2 o3 Some] run
            have "tr' = tr @ [Makedirs d, SelectAll (lit ''DESELECT''), SelectSet ob True, SetActive ob]"
              by simp
            ultimately show ?thesis by simp
          next
            case o4: None
            note ext = export_mesh_run_ext [OF o1 [unfolded d_def] o2 [unfolded d_def]
                o3 [unfolded d_def] o4 [unfolded d_def] prepared_def [unfolded d_def], of p]
            from sup consider (empty) "fe0 = []" | (obj) "fe0 = lit ''.obj''"
              | (blend) "fe0 = lit ''.blend''"
              by blast
            then have "\<exists>operator after b. is_export_call operator \<and> r = Inr b \<and>
                tr' = prepared @ [operator] @ after \<and> (\<forall>c \<in> set after. is_print c)"
            proof cases
              case empty
              then have "q = p @ lit ''.obj''" by (simp add: q_def)
              from ext(2) [OF empty [unfolded fe0_def] this] run
              have "\<exists>after b. r = Inr b \<and>
                  tr' = prepared @ [ObjExport q True False] @ after \<and> (\<forall>c \<in> set after. is_print c)"
                by (auto split: option.splits)
              then show ?thesis by (intro exI [of _ "ObjExport q True False"]) simp
            next
              case obj
              then have "q = p" by (simp add: q_def)
              from ext(1) [OF obj [unfolded fe0_def] this] run
              have "\<exists>after b. r = Inr b \<and>
                  tr' = prepared @ [ObjExport q True False] @ after \<and> (\<forall>c \<in> set after. is_print c)"
                by (auto split: option.splits)
              then show ?thesis by (intro exI [of _ "ObjExport q True False"]) simp
            next
              case blend
              then have "q = p" by (simp add: q_def)
              from ext(3) [OF blend [unfolded fe0_def] this] run
              have "\<exists>after b. r = Inr b \<and>
                  tr' = prepared @ [SaveAsMainfile q] @ after \<and> (\<forall>c \<in> set after. is_print c)"
                by (auto split: option.splits)
              then show ?thesis by (intro exI [of _ "SaveAsMainfile q"]) simp
            qed
            then obtain operator after b where "is_export_call operator" "r = Inr b"
              "tr' = prepared @ [operator] @ after" "\<forall>c \<in> set after. is_print c"
              by blast
            then have ?exported
              unfolding prepared_def
              by (intro exI [of _ d] exI [of _ operator] exI [of _ after] exI [of _ b]) simp
            then show ?thesis ..
          qed
        qed
      qed
    qed
  qed
qed


lemma bindE:
  assumes "bind m f tr = (r, tr'')"
  obtains (Raise) e where "m tr = (Inl e, tr'')" "r = Inl e"
        | (Ret) x tr' where "m tr = (Inr x, tr')" "f x tr' = (r, tr'')"
  using assms by (auto simp: bind_def split: prod.splits sum.splits)

lemma uncaughtE:
  assumes "uncaught m tr = (r, tr')"
  obtains (Body) r0 where "m tr = (r0, tr')"
    and "r = (case r0 of Inl e \<Rightarrow> Inl (Uncaught e) | Inr x \<Rightarrow> Inr x)"
  using assms by (auto simp: uncaught_def split: prod.splits sum.splits)

lemma warning_quiet:
  "\<exists>ws. (if \<not> is_supported then
            bind (print s1) (\<lambda>_. bind (print_char_infos unsupported_chars) (\<lambda>_. print s2))
          else ret ()) tr = (Inr (), tr @ ws) \<and> stages ws = []"
proof (cases is_supported)
  case True
  then show ?thesis by (simp add: prog_defs)
next
  case False
  from print_char_infos_quiet [of unsupported_chars "tr @ [Print s1]"]
  obtain ps where "print_char_infos unsupported_chars (tr @ [Print s1]) = (Inr (), tr @ [Print s1] @ ps)"
    and "stages ps = []" by auto
  with False show ?thesis
    by (auto simp: prog_defs stages_append)
qed

lemma output_path_choice:
  assumes "(if c then ret p1 else get_default_output_path h text ext) t = (res, t')"
  shows "\<exists>mk. t' = t @ mk \<and> (\<forall>c \<in> set mk. is_makedirs c)"
  using assms
  by (auto simp: get_default_output_path_def prog_defs read_clock_def Let_def split: if_splits option.splits)


lemma warning_run:
  assumes "(if \<not> is_supported then
            bind (print s1) (\<lambda>_. bind (print_char_infos unsupported_chars) (\<lambda>_. print s2))
          else ret ()) tr = (res, tr')"
  shows "res = Inr () \<and> (\<exists>ws. tr' = tr @ ws \<and> stages ws = [])"
  using assms warning_quiet [of is_supported s1 unsupported_chars s2 tr] by auto

lemma invoke_run:
  assumes "invoke h c t = (res, t')"
  shows "t' = t @ [c]"
  using assms by (auto simp: invoke_def)

section \<open>The run of main\<close>

lemma create_text_mesh_raise:
  assumes "create_text_mesh h text fp d res b tr = (Inl e, t)"
  shows "setup_raises h"
  using assms create_text_mesh_completes [of h "text" fp d res b tr] by (cases "setup_raises h") auto

lemma invoke_raise:
  assumes "invoke h c t = (Inl e, t')" and "\<not> is_export_call c" and "\<not> is_print c"
  shows "setup_raises h"
proof -
  from assms(1) have "outcome h t c = Some e" by (auto simp: invoke_def split: option.splits)
  then show ?thesis using assms(2,3) by (rule setup_raisesI)
qed

lemma invoke_ret:
  assumes "invoke h c t = (Inr u, t')"
  shows "outcome h t c = None"
  using assms by (auto simp: invoke_def split: option.splits)

lemma output_path_raise:
  assumes "(if c then ret p1 else get_default_output_path h text ext) t = (Inl e, t')"
  shows "setup_raises h"
proof -
  from assms have "outcome h t (Makedirs (path_join h (script_dir h) (lit ''output''))) = Some e"
    by (auto simp: get_default_output_path_def prog_defs read_clock_def Let_def
        split: if_splits option.splits)
  then show ?thesis by (rule setup_raisesI) simp_all
qed

lemma main_enters_export_mesh:
  assumes run: "main h U A argv [] = (r, tr)"
  shows "(prefix (stages tr) (butlast pipeline) \<and>
          ((\<exists>status. parse_args A argv = Inl status) \<or>
           (\<exists>args. parse_args A argv = Inr args \<and>
                   \<not> path_exists h (path_join h (script_dir h) (arg_font args))) \<or>
           setup_raises h))
       \<or> (\<exists>pre ob mid p re.
             stages pre = [CreateText, SetTextFont, SetExtrudeDepth, SetBevel, SetResolution] \<and>
             (\<forall>c \<in> set mid. is_makedirs c) \<and>
             outcome h (pre @ [Convert (lit ''MESH''), ShadeSmooth, ModifierAdd (lit ''EDGE_SPLIT''),
                               OriginSet (lit ''ORIGIN_CENTER_OF_MASS'')])
               (SetLocation ob (0, 0, 0)) = None \<and>
             export_mesh h ob (Some p)
               (pre @ [Convert (lit ''MESH''), ShadeSmooth, ModifierAdd (lit ''EDGE_SPLIT''),
                       OriginSet (lit ''ORIGIN_CENTER_OF_MASS''), SetLocation ob (0, 0, 0)] @ mid) =
               (re, tr) \<and>
             r = (case re of Inl e \<Rightarrow> Inl (Uncaught e) | Inr b \<Rightarrow> Inr ()))"
    (is "?early \<or> ?entered")
proof (cases "parse_args A argv")
  case (Inl status)
  with run have "tr = []" by (simp add: main_def)
  with Inl show ?thesis by simp
next
  case (Inr args)
  from run [unfolded main_def Inr sum.case] show ?thesis
  proof (cases rule: uncaughtE)
  case (Body r0)
  show ?thesis
  proof (cases "path_exists h (path_join h (script_dir h) (arg_font args))")
    case False
    with Body(1) have "tr = [Print (lit ''Error: Font file not found at '' @
                                    path_join h (script_dir h) (arg_font args))]"
      by (simp add: Let_def prog_defs)
    with False Inr show ?thesis by simp
  next
    case True
    then have sel: "\<And>X Y :: unit prog.
        (if \<not> path_exists h (path_join h (script_dir h) (arg_font args)) then X else Y) = Y"
      by simp
    from Body(1) [unfolded Let_def sel] show ?thesis
    proof (cases rule: bindE)
      case (Raise e)
      with check_font_support_quiet [of h U "path_join h (script_dir h) (arg_font args)" "arg_text args" "[]"]
      show ?thesis by auto
    next
      case cfs: (Ret x t1)
      from cfs(1)
        check_font_support_quiet [of h U "path_join h (script_dir h) (arg_font args)" "arg_text args" "[]"]
      have t1: "stages t1 = []" by auto
      obtain is_supported unsupported_chars where x: "x = (is_supported, unsupported_chars)"
        by (cases x)
      from cfs(2) [unfolded x prod.case] show ?thesis
      proof (cases rule: bindE)
        case (Raise e)
        from warning_run [OF Raise(1)] show ?thesis by simp
      next
        case warn: (Ret u t2)
        from warning_run [OF warn(1)] t1
        have t2: "stages t2 = []" by (auto simp: stages_append)
        from warn(2) show ?thesis
        proof (cases rule: bindE)
          case (Raise e)
          from create_text_mesh_shape [OF Raise(1)]
          obtain added where "tr = t2 @ added" "prefix (stages added) (butlast pipeline)"
            by auto
          with t2 create_text_mesh_raise [OF Raise(1)] show ?thesis by (simp add: stages_append)
        next
          case ctm: (Ret y t3)
          from create_text_mesh_shape [OF ctm(1)]
          obtain ob f where y: "y = (ob, arg_text args)"
            and t3: "t3 = t2 @ [SelectAll (lit ''SELECT''), Delete, TextAdd (0, 0, 0),
                        SetBody ob (arg_text args),
                        FontsLoad (path_join h (script_dir h) (arg_font args)), SetFont ob f,
                        SetExtrude ob (arg_depth args), SetBevelDepth ob (arg_bevel args),
                        SetBevelResolution ob (arg_resolution args), SetActive ob,
                        Convert (lit ''MESH''), ShadeSmooth, ModifierAdd (lit ''EDGE_SPLIT'')]"
            by auto
          define pre where "pre = t2 @ [SelectAll (lit ''SELECT''), Delete, TextAdd (0, 0, 0),
                        SetBody ob (arg_text args),
                        FontsLoad (path_join h (script_dir h) (arg_font args)), SetFont ob f,
                        SetExtrude ob (arg_depth args), SetBevelDepth ob (arg_bevel args),
                        SetBevelResolution ob (arg_resolution args), SetActive ob]"
          have pre: "stages pre = [CreateText, SetTextFont, SetExtrudeDepth, SetBevel, SetResolution]"
            by (simp add: pre_def stages_append t2)
          have t3': "t3 = pre @ [Convert (lit ''MESH''), ShadeSmooth, ModifierAdd (lit ''EDGE_SPLIT'')]"
            by (simp add: t3 pre_def)
          from ctm(2) [unfolded y prod.case] show ?thesis
          proof (cases rule: bindE)
            case (Raise e)
            from invoke_run [OF Raise(1)] invoke_raise [OF Raise(1)] show ?thesis
              by (simp add: t3' stages_append pre pipeline_def)
          next
            case origin: (Ret u4 t4)
            note t4 = invoke_run [OF origin(1)]
            from origin(2) show ?thesis
            proof (cases rule: bindE)
              case (Raise e)
              from invoke_run [OF Raise(1)] invoke_raise [OF Raise(1)] show ?thesis
                by (simp add: t4 t3' stages_append pre pipeline_def)
            next
              case loc: (Ret u5 t5)
              note t5 = invoke_run [OF loc(1)]
              from loc(2) show ?thesis
              proof (cases rule: bindE)
                case (Raise e)
                from output_path_choice [OF Raise(1)]
                obtain mk where "tr = t5 @ mk" "\<forall>c \<in> set mk. is_makedirs c" by auto
                with output_path_raise [OF Raise(1)] show ?thesis
                  by (simp add: t5 t4 t3' stages_append pre pipeline_def makedirs_stages)
              next
                case path: (Ret output_path t6)
                from output_path_choice [OF path(1)]
                obtain mk where t6: "t6 = t5 @ mk" and mk: "\<forall>c \<in> set mk. is_makedirs c" by auto
                have t6': "t6 = pre @ [Convert (lit ''MESH''), ShadeSmooth,
                    ModifierAdd (lit ''EDGE_SPLIT''), OriginSet (lit ''ORIGIN_CENTER_OF_MASS''),
                    SetLocation ob (0, 0, 0)] @ mk"
                  by (simp add: t6 t5 t4 t3')
                have located: "outcome h (pre @ [Convert (lit ''MESH''), ShadeSmooth,
                    ModifierAdd (lit ''EDGE_SPLIT''), OriginSet (lit ''ORIGIN_CENTER_OF_MASS'')])
                    (SetLocation ob (0, 0, 0)) = None"
                  using invoke_ret [OF loc(1)] by (simp add: t4 t3')
                have "\<exists>re. export_mesh h ob (Some output_path) t6 = (re, tr) \<and>
                    r = (case re of Inl e \<Rightarrow> Inl (Uncaught e) | Inr b \<Rightarrow> Inr ())"
                  using path(2)
                proof (cases rule: bindE)
                  case (Raise e)
                  with Body(2) show ?thesis by simp
                next
                  case exp: (Ret b t7)
                  from exp(2) Body(2) have "r = Inr ()" and "tr = t7"
                    by (auto simp: ret_def)
                  with exp(1) show ?thesis by simp
                qed
                then obtain re where "export_mesh h ob (Some output_path) t6 = (re, tr)"
                  and "r = (case re of Inl e \<Rightarrow> Inl (Uncaught e) | Inr b \<Rightarrow> Inr ())"
                  by blast
                with pre mk located have ?entered
                  unfolding t6'
                  by (intro exI [of _ pre] exI [of _ ob] exI [of _ mk] exI [of _ output_path]
                        exI [of _ re]) simp
                then show ?thesis ..
              qed
            qed
          qed
        qed
      qed
    qed
  qed
qed
qed


section \<open>The sample runs\<close>

lemma sample_parse:
  "parse_args sample_argparse sample_argv = Inr (parser_defaults\<lparr>arg_output := Some (lit ''out/a.obj'')\<rparr>)"
  by (simp add: parse_args_def parser_parse_args_def sample_argparse_def sample_argv_def)

lemma sample_font_check [simplified]:
  "check_font_support sample_host stdlib_unicodedata sample_font_path (lit ''hello'') [] =
     (Inr (True, []), [Print (lit ''Warning: Font check failed - module '' @ quoted (lit ''unicodedata'') @
             lit '' has no attribute '' @ quoted (lit ''script''))])"
  "check_font_support failing_export_host stdlib_unicodedata sample_font_path (lit ''hello'') [] =
     (Inr (True, []), [Print (lit ''Warning: Font check failed - module '' @ quoted (lit ''unicodedata'') @
             lit '' has no attribute '' @ quoted (lit ''script''))])"
  by (simp_all add: check_font_support_def font_check_def prog_defs sample_host_simps
        failing_export_host_simps sample_cmap_def stdlib_unicodedata_def py_whitespace_def quoted_def)


lemma sample_paths [simplified]:
  "posix_join (lit ''/home/user/gen'') ([46, 92] @ lit ''fonts'' @ [92] @ lit ''hp.ttf'') = sample_font_path"
  "posix_join (lit ''/home/user/gen'') (lit ''out/a.obj'') = lit ''/home/user/gen/out/a.obj''"
  "posix_dirname (lit ''/home/user/gen/out/a.obj'') = lit ''/home/user/gen/out''"
  "path_sep h = 47 \<Longrightarrow> path_altsep h = None \<Longrightarrow>
     splitext h (lit ''/home/user/gen/out/a.obj'') = (lit ''/home/user/gen/out/a'', lit ''.obj'')"
  by (simp_all add: posix_join_def sample_font_path_def path_defs)

lemma sample_create_text_mesh [simplified]:
  "create_text_mesh sample_host (lit ''hello'') sample_font_path 0.2 32 0.01 [c] =
     (Inr (1, lit ''hello''),
      [c, SelectAll (lit ''SELECT''), Delete, TextAdd (0, 0, 0), SetBody 1 (lit ''hello''),
       FontsLoad sample_font_path, SetFont 1 1, SetExtrude 1 0.2, SetBevelDepth 1 0.01,
       SetBevelResolution 1 32, SetActive 1, Convert (lit ''MESH''), ShadeSmooth,
       ModifierAdd (lit ''EDGE_SPLIT'')])"
  "create_text_mesh failing_export_host (lit ''hello'') sample_font_path 0.2 32 0.01 [c] =
     (Inr (1, lit ''hello''),
      [c, SelectAll (lit ''SELECT''), Delete, TextAdd (0, 0, 0), SetBody 1 (lit ''hello''),
       FontsLoad sample_font_path, SetFont 1 1, SetExtrude 1 0.2, SetBevelDepth 1 0.01,
       SetBevelResolution 1 32, SetActive 1, Convert (lit ''MESH''), ShadeSmooth,
       ModifierAdd (lit ''EDGE_SPLIT'')])"
  by (simp_all add: create_text_mesh_def fonts_load_def read_active_object_def prog_defs
        sample_host_simps failing_export_host_simps)


lemma sample_export [simplified]:
  "export_mesh sample_host 1 (Some (lit ''/home/user/gen/out/a.obj'')) T =
     (Inr True,
      T @ [Makedirs (lit ''/home/user/gen/out''), SelectAll (lit ''DESELECT''), SelectSet 1 True,
           SetActive 1, ObjExport (lit ''/home/user/gen/out/a.obj'') True False,
           Print (lit ''Exported to: /home/user/gen/out/a.obj'')])"
  "export_mesh failing_export_host 1 (Some (lit ''/home/user/gen/out/a.obj'')) T =
     (Inr False,
      T @ [Makedirs (lit ''/home/user/gen/out''), SelectAll (lit ''DESELECT''), SelectSet 1 True,
           SetActive 1, ObjExport (lit ''/home/user/gen/out/a.obj'') True False,
           Print (lit ''Export failed: Error: cannot write file''),
           Print (lit ''Traceback (most recent call last): Error: cannot write file'')])"
   apply (simp_all add: export_mesh_def prog_defs sample_paths sample_host_simps
       failing_export_host_simps lower_def ascii_lower_def lower_cp_def)
   apply (simp_all add: Let_def sample_paths sample_host_simps failing_export_host_simps)
  done

lemma main_sample_run:
  "main sample_host stdlib_unicodedata sample_argparse sample_argv [] =
     (Inr (), sample_prepared @ [ObjExport (lit ''/home/user/gen/out/a.obj'') True False,
                                 Print (lit ''Exported to: /home/user/gen/out/a.obj'')])"
  by (simp add: main_def sample_parse parser_defaults_def prog_defs uncaught_def sample_host_simps sample_paths
        sample_font_check sample_create_text_mesh sample_export sample_prepared_def sample_centred_def quoted_def)


section \<open>Runs that export\<close>

lemma split_at_export:
  assumes "\<forall>c \<in> set xs. \<not> is_export_call c" and "is_export_call operator"
  shows "before_export (xs @ operator # ys) = xs" and "from_export (xs @ operator # ys) = operator # ys"
  using assms by (simp_all add: before_export_def from_export_def takeWhile_append2 dropWhile_append2)

lemma early_no_export:
  assumes "prefix (stages tr) (butlast pipeline)"
  shows "from_export tr = []"
proof -
  from assms have "set (stages tr) \<subseteq> set (butlast pipeline)" by (rule set_mono_prefix)
  then have "Export \<notin> set (stages tr)" by (auto simp: pipeline_def)
  then have "\<forall>c \<in> set tr. \<not> is_export_call c" by (simp add: no_export_stages)
  then show ?thesis by (simp add: from_export_def)
qed

lemma main_export_shape:
  assumes run: "main h U A argv [] = (r, tr)" and exported: "from_export tr \<noteq> []"
  shows "\<exists>pre ob mid operator after.
           before_export tr =
             pre @ [Convert (lit ''MESH''), ShadeSmooth, ModifierAdd (lit ''EDGE_SPLIT''),
                    OriginSet (lit ''ORIGIN_CENTER_OF_MASS''), SetLocation ob (0, 0, 0)] @ mid @
             [SelectAll (lit ''DESELECT''), SelectSet ob True, SetActive ob] \<and>
           from_export tr = operator # after \<and>
           stages pre = [CreateText, SetTextFont, SetExtrudeDepth, SetBevel, SetResolution] \<and>
           (\<forall>c \<in> set mid. is_makedirs c) \<and> is_export_call operator \<and>
           (\<forall>c \<in> set after. is_print c) \<and>
           outcome h (pre @ [Convert (lit ''MESH''), ShadeSmooth, ModifierAdd (lit ''EDGE_SPLIT''),
                             OriginSet (lit ''ORIGIN_CENTER_OF_MASS'')])
             (SetLocation ob (0, 0, 0)) = None \<and>
           r = Inr ()"
proof -
  from main_enters_export_mesh [OF run] exported early_no_export [of tr]
  obtain pre ob mid0 p re where
    pre: "stages pre = [CreateText, SetTextFont, SetExtrudeDepth, SetBevel, SetResolution]"
    and mid0: "\<forall>c \<in> set mid0. is_makedirs c"
    and located: "outcome h (pre @ [Convert (lit ''MESH''), ShadeSmooth,
        ModifierAdd (lit ''EDGE_SPLIT''), OriginSet (lit ''ORIGIN_CENTER_OF_MASS'')])
        (SetLocation ob (0, 0, 0)) = None"
    and exp: "export_mesh h ob (Some p)
               (pre @ [Convert (lit ''MESH''), ShadeSmooth, ModifierAdd (lit ''EDGE_SPLIT''),
                       OriginSet (lit ''ORIGIN_CENTER_OF_MASS''), SetLocation ob (0, 0, 0)] @ mid0) =
               (re, tr)"
    and r: "r = (case re of Inl e \<Rightarrow> Inl (Uncaught e) | Inr b \<Rightarrow> Inr ())"
    by blast
  define t0 where "t0 = pre @ [Convert (lit ''MESH''), ShadeSmooth, ModifierAdd (lit ''EDGE_SPLIT''),
                       OriginSet (lit ''ORIGIN_CENTER_OF_MASS''), SetLocation ob (0, 0, 0)] @ mid0"
  have st0: "stages t0 = butlast pipeline"
    by (simp add: t0_def stages_append pre makedirs_stages [OF mid0] pipeline_def)
  from export_mesh_shape [OF exp [folded t0_def]]
  have "\<exists>d operator after b. is_export_call operator \<and> re = Inr b \<and>
          tr = t0 @ [Makedirs d, SelectAll (lit ''DESELECT''), SelectSet ob True, SetActive ob,
                     operator] @ after \<and> (\<forall>c \<in> set after. is_print c)"
  proof
    assume "\<exists>added. tr = t0 @ added \<and> stages added = [] \<and> (setup_raises h \<or> re = Inr False)"
    then obtain added where "tr = t0 @ added" "stages added = []" by blast
    then have "prefix (stages tr) (butlast pipeline)" by (simp add: stages_append st0)
    with early_no_export exported show ?thesis by blast
  qed
  then obtain d operator after b where op: "is_export_call operator" and re: "re = Inr b"
    and tr: "tr = t0 @ [Makedirs d, SelectAll (lit ''DESELECT''), SelectSet ob True, SetActive ob,
                     operator] @ after"
    and after: "\<forall>c \<in> set after. is_print c"
    by blast
  define before where
    "before = t0 @ [Makedirs d, SelectAll (lit ''DESELECT''), SelectSet ob True, SetActive ob]"
  have tr': "tr = before @ operator # after"
    by (simp add: tr before_def)
  have "Export \<notin> set (stages before)"
    by (simp add: before_def stages_append st0 pipeline_def)
  then have quiet: "\<forall>c \<in> set before. \<not> is_export_call c" by (simp add: no_export_stages)
  note split = split_at_export [OF quiet op, of after, folded tr']
  have mid: "\<forall>c \<in> set (mid0 @ [Makedirs d]). is_makedirs c" using mid0 by simp
  show ?thesis
    apply (rule exI [of _ pre])
    apply (rule exI [of _ ob])
    apply (rule exI [of _ "mid0 @ [Makedirs d]"])
    apply (rule exI [of _ operator])
    apply (rule exI [of _ after])
    using mid located apply (simp add: split pre op after r re)
    apply (simp add: before_def t0_def)
    done
qed

section \<open>The order of the operations\<close>

text \<open>
  C5. In every run of \<open>main\<close> the stages of the pipeline are invoked in the fixed
  order: create the text object, set its font, its extrude depth, its bevel depth and
  its bevel resolution, convert to a mesh, export. The stages a run reaches are an
  initial part of this sequence, and when an export operator is invoked, the calls
  before it have gone through all the earlier stages, the conversion last: the export
  never comes before the conversion.
\<close>

theorem main_pipeline_order:
  assumes "main h U argparse sys_argv [] = (r, tr)"
  shows "prefix (stages tr) pipeline \<and>
         (from_export tr \<noteq> [] \<longrightarrow> stages (before_export tr) = butlast pipeline)"
proof (cases "from_export tr = []")
  case True
  from True have "\<forall>c \<in> set tr. \<not> is_export_call c"
    by (simp add: from_export_def dropWhile_eq_Nil_conv)
  then have "Export \<notin> set (stages tr)" by (simp add: no_export_stages)
  have "prefix (stages tr) (butlast pipeline)"
    using main_enters_export_mesh [OF assms]
  proof
    assume "prefix (stages tr) (butlast pipeline) \<and>
          ((\<exists>status. parse_args argparse sys_argv = Inl status) \<or>
           (\<exists>args. parse_args argparse sys_argv = Inr args \<and>
                   \<not> path_exists h (path_join h (script_dir h) (arg_font args))) \<or>
           setup_raises h)"
    then show ?thesis ..
  next
    assume "\<exists>pre ob mid p re.
             stages pre = [CreateText, SetTextFont, SetExtrudeDepth, SetBevel, SetResolution] \<and>
             (\<forall>c \<in> set mid. is_makedirs c) \<and>
             outcome h (pre @ [Convert (lit ''MESH''), ShadeSmooth, ModifierAdd (lit ''EDGE_SPLIT''),
                               OriginSet (lit ''ORIGIN_CENTER_OF_MASS'')])
               (SetLocation ob (0, 0, 0)) = None \<and>
             export_mesh h ob (Some p)
               (pre @ [Convert (lit ''MESH''), ShadeSmooth, ModifierAdd (lit ''EDGE_SPLIT''),
                       OriginSet (lit ''ORIGIN_CENTER_OF_MASS''), SetLocation ob (0, 0, 0)] @ mid) =
               (re, tr) \<and>
             r = (case re of Inl e \<Rightarrow> Inl (Uncaught e) | Inr b \<Rightarrow> Inr ())"
    then obtain pre ob mid p re where
      pre: "stages pre = [CreateText, SetTextFont, SetExtrudeDepth, SetBevel, SetResolution]"
      and mid: "\<forall>c \<in> set mid. is_makedirs c"
      and exp: "export_mesh h ob (Some p)
               (pre @ [Convert (lit ''MESH''), ShadeSmooth, ModifierAdd (lit ''EDGE_SPLIT''),
                       OriginSet (lit ''ORIGIN_CENTER_OF_MASS''), SetLocation ob (0, 0, 0)] @ mid) =
               (re, tr)"
      by blast
    from export_mesh_shape [OF exp] show ?thesis
    proof
      assume "\<exists>added. tr = (pre @ [Convert (lit ''MESH''), ShadeSmooth,
          ModifierAdd (lit ''EDGE_SPLIT''), OriginSet (lit ''ORIGIN_CENTER_OF_MASS''),
          SetLocation ob (0, 0, 0)] @ mid) @ added \<and> stages added = [] \<and>
          (setup_raises h \<or> re = Inr False)"
      then show ?thesis
        by (auto simp: stages_append pre makedirs_stages [OF mid] pipeline_def)
    next
      assume "\<exists>d operator after b. is_export_call operator \<and> re = Inr b \<and>
          tr = (pre @ [Convert (lit ''MESH''), ShadeSmooth,
          ModifierAdd (lit ''EDGE_SPLIT''), OriginSet (lit ''ORIGIN_CENTER_OF_MASS''),
          SetLocation ob (0, 0, 0)] @ mid) @
          [Makedirs d, SelectAll (lit ''DESELECT''), SelectSet ob True, SetActive ob, operator] @
          after \<and> (\<forall>c \<in> set after. is_print c)"
      then obtain operator where "is_export_call operator" "operator \<in> set tr" by auto
      with \<open>\<forall>c \<in> set tr. \<not> is_export_call c\<close> show ?thesis by blast
    qed
  qed
  then have "prefix (stages tr) pipeline"
    using prefix_order.trans prefixeq_butlast by blast
  with True show ?thesis by simp
next
  case False
  from main_export_shape [OF assms False]
  obtain pre ob mid operator after where
    before: "before_export tr =
             pre @ [Convert (lit ''MESH''), ShadeSmooth, ModifierAdd (lit ''EDGE_SPLIT''),
                    OriginSet (lit ''ORIGIN_CENTER_OF_MASS''), SetLocation ob (0, 0, 0)] @ mid @
             [SelectAll (lit ''DESELECT''), SelectSet ob True, SetActive ob]"
    and "from": "from_export tr = operator # after"
    and pre: "stages pre = [CreateText, SetTextFont, SetExtrudeDepth, SetBevel, SetResolution]"
    and mid: "\<forall>c \<in> set mid. is_makedirs c" and op: "is_export_call operator"
    and after: "\<forall>c \<in> set after. is_print c"
    by blast
  have tr: "tr = before_export tr @ from_export tr"
    by (simp add: before_export_def from_export_def)
  have sb: "stages (before_export tr) = butlast pipeline"
    by (simp add: before stages_append pre makedirs_stages [OF mid] pipeline_def)
  from op have "stage_of operator = Some Export" by (cases operator) simp_all
  then have sf: "stages (from_export tr) = [Export]"
    by (simp add: "from" print_stages [OF after])
  have "stages tr = pipeline"
    by (subst tr) (simp add: stages_append sb sf pipeline_def)
  with sb show ?thesis by simp
qed

theorem main_pipeline_order_witness:
  "main sample_host stdlib_unicodedata sample_argparse sample_argv [] =
     (Inr (), sample_prepared @ [ObjExport (lit ''/home/user/gen/out/a.obj'') True False,
                                 Print (lit ''Exported to: /home/user/gen/out/a.obj'')]) \<and>
   stages (sample_prepared @ [ObjExport (lit ''/home/user/gen/out/a.obj'') True False,
                              Print (lit ''Exported to: /home/user/gen/out/a.obj'')]) = pipeline \<and>
   stages sample_prepared = butlast pipeline"
  using main_pipeline_order [OF main_sample_run] main_sample_run
  by (simp add: sample_prepared_def sample_centred_def pipeline_def stages_append)


section \<open>Normal runs\<close>



section \<open>Centring\<close>







section \<open>The result of the export\<close>




end
